theory Spec2Isabelle
  imports Main "HOL-Library.Word" "HOL-Library.Sublist"
begin

section \<open>Menu entries (struct PopupMenuTableEntry)\<close>

text \<open>
  \<^verbatim>\<open>enum Type { Item, RadioItem, CheckItem, Separator, SubMenu, Invalid };\<close>
\<close>

datatype Type = Item | RadioItem | CheckItem | Separator | SubMenu | Invalid

text \<open>
  The types the header takes from other files. A \<^verbatim>\<open>TranslatableString\<close> is read as its
  message text, the default-constructed \<^verbatim>\<open>{}\<close> being the empty text; an
  \<^verbatim>\<open>Identifier\<close> is a name. A \<^verbatim>\<open>wxCommandEventFunction\<close> is a pointer to a member
  function: \<open>None\<close> is \<^verbatim>\<open>nullptr\<close>, \<open>Some (c, f)\<close> is \<^verbatim>\<open>&c::f\<close>. A
  \<^verbatim>\<open>PopupMenuTable *\<close> is the address of a table object, \<open>None\<close> being \<^verbatim>\<open>nullptr\<close>.
  The C++ \<^verbatim>\<open>int\<close> is a 32-bit word, read as signed by \<open>sint\<close>.
\<close>

type_synonym TranslatableString = string
type_synonym Identifier = string
type_synonym wxCommandEventFunction = "(string \<times> string) option"
type_synonym PopupMenuTable_ptr = "nat option"

record PopupMenuTableEntry =
  type :: Type
  id' :: "32 word"
  caption :: TranslatableString
  func :: wxCommandEventFunction
  subTable :: PopupMenuTable_ptr

text \<open>The constructor: a member initialiser list, one field per argument.\<close>

definition PopupMenuTableEntry ::
  "Type \<Rightarrow> 32 word \<Rightarrow> TranslatableString \<Rightarrow> wxCommandEventFunction \<Rightarrow> PopupMenuTable_ptr
     \<Rightarrow> PopupMenuTableEntry" where
  "PopupMenuTableEntry a_type a_id a_caption a_func a_subTable =
     \<lparr>type = a_type, id' = a_id, caption = a_caption, func = a_func, subTable = a_subTable\<rparr>"

definition IsItem :: "PopupMenuTableEntry \<Rightarrow> bool" where
  "IsItem e \<longleftrightarrow> type e = Item \<or> type e = RadioItem \<or> type e = CheckItem"

definition IsSubMenu :: "PopupMenuTableEntry \<Rightarrow> bool" where
  "IsSubMenu e \<longleftrightarrow> type e = SubMenu"

definition IsValid :: "PopupMenuTableEntry \<Rightarrow> bool" where
  "IsValid e \<longleftrightarrow> type e \<noteq> Invalid"


section \<open>Tables (class PopupMenuTable)\<close>

text \<open>
  The two data members. A class derived from the table is an extension of the record, so
  the operations are stated on \<open>'a PopupMenuTable_scheme\<close>: they see the fields of the
  base class and carry the rest along.
\<close>

type_synonym Entries = "PopupMenuTableEntry list"

record PopupMenuTable =
  mContents :: Entries
  mCaption :: TranslatableString

text \<open>
  \<^verbatim>\<open>PopupMenuTable( const Identifier &id, const TranslatableString &caption = {} )
     : mCaption{ caption } {}\<close>
  The vector member is default-initialised, that is, empty.
\<close>

definition PopupMenuTable :: "Identifier \<Rightarrow> TranslatableString \<Rightarrow> PopupMenuTable" where
  "PopupMenuTable ident a_caption = \<lparr>mContents = [], mCaption = a_caption\<rparr>"

definition Caption :: "'a PopupMenuTable_scheme \<Rightarrow> TranslatableString" where
  "Caption t = mCaption t"

definition Clear :: "'a PopupMenuTable_scheme \<Rightarrow> 'a PopupMenuTable_scheme" where
  "Clear t = t\<lparr>mContents := []\<rparr>"

text \<open>
  \<^verbatim>\<open>Populate()\<close> is pure virtual: its body is code of the derived class, acting on the
  object. It either returns (\<open>None\<close>) or leaves by an exception \<open>x\<close> (\<open>Some x\<close>); in
  both cases the object is in the state the body left it in.
\<close>

datatype exception = Exception string

type_synonym 'a Populate =
  "'a PopupMenuTable_scheme \<Rightarrow> exception option \<times> 'a PopupMenuTable_scheme"

text \<open>
  \<^verbatim>\<open>const Entries& Get() { if (mContents.empty()) Populate(); return mContents; }\<close>
  \<open>Get\<close> has no handler, so an exception of \<^verbatim>\<open>Populate()\<close> leaves \<open>Get\<close> as it is
  (\<open>Inl x\<close>); otherwise the sequence is returned (\<open>Inr\<close>). The second component is the
  object after the call.
\<close>

definition Get ::
  "'a Populate \<Rightarrow> 'a PopupMenuTable_scheme \<Rightarrow> (exception + Entries) \<times> 'a PopupMenuTable_scheme" where
  "Get Populate t =
     (if mContents t = [] then
        (case Populate t of
           (None, t') \<Rightarrow> (Inr (mContents t'), t')
         | (Some x, t') \<Rightarrow> (Inl x, t'))
      else (Inr (mContents t), t))"


section \<open>The macros\<close>

text \<open>
  \<^verbatim>\<open>#define POPUP_MENU_APPEND(stringId, type, id, string, memFn, subTable)
     mContents.push_back( Entry { type, id, string, memFn, subTable } );\<close>
  The argument \<open>stringId\<close> is not used by the expansion.
\<close>

definition POPUP_MENU_APPEND ::
  "string \<Rightarrow> Type \<Rightarrow> 32 word \<Rightarrow> TranslatableString \<Rightarrow> wxCommandEventFunction
     \<Rightarrow> PopupMenuTable_ptr \<Rightarrow> 'a PopupMenuTable_scheme \<Rightarrow> 'a PopupMenuTable_scheme" where
  "POPUP_MENU_APPEND stringId a_type a_id a_string memFn a_subTable t =
     t\<lparr>mContents := mContents t @ [PopupMenuTableEntry a_type a_id a_string memFn a_subTable]\<rparr>"

text \<open>
  \<open>My\<close> is the name that \<^verbatim>\<open>BEGIN_POPUP_MENU(HandlerClass)\<close> binds with
  \<^verbatim>\<open>using My = HandlerClass;\<close> the callback is \<^verbatim>\<open>(wxCommandEventFunction) (&My::memFn)\<close>.
\<close>

definition POPUP_MENU_APPEND_ITEM ::
  "string \<Rightarrow> string \<Rightarrow> Type \<Rightarrow> 32 word \<Rightarrow> TranslatableString \<Rightarrow> string
     \<Rightarrow> 'a PopupMenuTable_scheme \<Rightarrow> 'a PopupMenuTable_scheme" where
  "POPUP_MENU_APPEND_ITEM My stringId a_type a_id a_string memFn =
     POPUP_MENU_APPEND stringId a_type a_id a_string (Some (My, memFn)) None"

definition POPUP_MENU_ITEM ::
  "string \<Rightarrow> string \<Rightarrow> 32 word \<Rightarrow> TranslatableString \<Rightarrow> string
     \<Rightarrow> 'a PopupMenuTable_scheme \<Rightarrow> 'a PopupMenuTable_scheme" where
  "POPUP_MENU_ITEM My stringId a_id a_string memFn =
     POPUP_MENU_APPEND_ITEM My stringId Item a_id a_string memFn"

definition POPUP_MENU_RADIO_ITEM ::
  "string \<Rightarrow> string \<Rightarrow> 32 word \<Rightarrow> TranslatableString \<Rightarrow> string
     \<Rightarrow> 'a PopupMenuTable_scheme \<Rightarrow> 'a PopupMenuTable_scheme" where
  "POPUP_MENU_RADIO_ITEM My stringId a_id a_string memFn =
     POPUP_MENU_APPEND_ITEM My stringId RadioItem a_id a_string memFn"

definition POPUP_MENU_CHECK_ITEM ::
  "string \<Rightarrow> string \<Rightarrow> 32 word \<Rightarrow> TranslatableString \<Rightarrow> string
     \<Rightarrow> 'a PopupMenuTable_scheme \<Rightarrow> 'a PopupMenuTable_scheme" where
  "POPUP_MENU_CHECK_ITEM My stringId a_id a_string memFn =
     POPUP_MENU_APPEND_ITEM My stringId CheckItem a_id a_string memFn"

text \<open>
  \<^verbatim>\<open>POPUP_MENU_SUB_MENU(stringId, classname)\<close> reads \<^verbatim>\<open>classname::Instance()\<close> twice:
  for its caption and for its address. The instance is given as the pair of its address
  and the table object found there.
\<close>

definition POPUP_MENU_SUB_MENU ::
  "string \<Rightarrow> nat \<times> PopupMenuTable \<Rightarrow> 'a PopupMenuTable_scheme \<Rightarrow> 'a PopupMenuTable_scheme" where
  "POPUP_MENU_SUB_MENU stringId Instance =
     POPUP_MENU_APPEND stringId SubMenu (- 1) (Caption (snd Instance)) None (Some (fst Instance))"

definition BEGIN_POPUP_MENU_SECTION ::
  "string \<Rightarrow> 'a PopupMenuTable_scheme \<Rightarrow> 'a PopupMenuTable_scheme" where
  "BEGIN_POPUP_MENU_SECTION name = POPUP_MENU_APPEND [] Separator (- 1) [] None None"

text \<open>\<^verbatim>\<open>#define END_POPUP_MENU_SECTION()\<close> expands to nothing.\<close>

definition END_POPUP_MENU_SECTION :: "'a PopupMenuTable_scheme \<Rightarrow> 'a PopupMenuTable_scheme" where
  "END_POPUP_MENU_SECTION t = t"

text \<open>\<^verbatim>\<open>END_POPUP_MENU()\<close> appends the last entry and closes the function body.\<close>

definition END_POPUP_MENU :: "'a PopupMenuTable_scheme \<Rightarrow> 'a PopupMenuTable_scheme" where
  "END_POPUP_MENU = POPUP_MENU_APPEND [] Invalid (- 1) [] None None"

text \<open>
  A \<^verbatim>\<open>Populate()\<close> body written with the macros is a sequence of macro invocations
  between \<^verbatim>\<open>BEGIN_POPUP_MENU\<close> and \<^verbatim>\<open>END_POPUP_MENU\<close>, executed in textual order.
\<close>

datatype invocation =
    Menu_Item string "32 word" TranslatableString string
  | Radio_Item string "32 word" TranslatableString string
  | Check_Item string "32 word" TranslatableString string
  | Sub_Menu string "nat \<times> PopupMenuTable"
  | Begin_Section string
  | End_Section

fun expand :: "string \<Rightarrow> invocation \<Rightarrow> 'a PopupMenuTable_scheme \<Rightarrow> 'a PopupMenuTable_scheme" where
  "expand My (Menu_Item stringId a_id a_string memFn) = POPUP_MENU_ITEM My stringId a_id a_string memFn"
| "expand My (Radio_Item stringId a_id a_string memFn) = POPUP_MENU_RADIO_ITEM My stringId a_id a_string memFn"
| "expand My (Check_Item stringId a_id a_string memFn) = POPUP_MENU_CHECK_ITEM My stringId a_id a_string memFn"
| "expand My (Sub_Menu stringId Instance) = POPUP_MENU_SUB_MENU stringId Instance"
| "expand My (Begin_Section name) = BEGIN_POPUP_MENU_SECTION name"
| "expand My End_Section = END_POPUP_MENU_SECTION"

text \<open>The invocations that expand to a \<^verbatim>\<open>POPUP_MENU_APPEND\<close>.\<close>

fun appends_entry :: "invocation \<Rightarrow> bool" where
  "appends_entry End_Section = False"
| "appends_entry _ = True"

text \<open>
  The function that \<^verbatim>\<open>BEGIN_POPUP_MENU(HandlerClass)\<close>, the invocations of the body and
  \<^verbatim>\<open>END_POPUP_MENU()\<close> define: \<^verbatim>\<open>void HandlerClass::Populate() { ... }\<close>. It returns
  normally.
\<close>

definition BEGIN_POPUP_MENU :: "string \<Rightarrow> invocation list \<Rightarrow> 'a Populate" where
  "BEGIN_POPUP_MENU HandlerClass body t = (None, END_POPUP_MENU (fold (expand HandlerClass) body t))"

text \<open>
  The entries one invocation leaves in a table that was empty before: what its expansion
  pushes, read off the expansion itself.
\<close>

definition appended :: "string \<Rightarrow> invocation \<Rightarrow> Entries" where
  "appended My m = mContents (expand My m (PopupMenuTable [] []))"


section \<open>Sequences of calls on one table\<close>

datatype call = Call_Get | Call_Caption | Call_Clear

text \<open>The object after one call; \<^verbatim>\<open>Caption()\<close> is a \<^verbatim>\<open>const\<close> member.\<close>

fun step :: "'a Populate \<Rightarrow> call \<Rightarrow> 'a PopupMenuTable_scheme \<Rightarrow> 'a PopupMenuTable_scheme" where
  "step Populate Call_Get t = snd (Get Populate t)"
| "step Populate Call_Caption t = t"
| "step Populate Call_Clear t = Clear t"

definition run :: "'a Populate \<Rightarrow> call list \<Rightarrow> 'a PopupMenuTable_scheme \<Rightarrow> 'a PopupMenuTable_scheme" where
  "run Populate cs t = fold (step Populate) cs t"


section \<open>Example tables\<close>

text \<open>
  A \<^verbatim>\<open>Populate()\<close> body with one invocation of each entry-appending macro:
  \<^verbatim>\<open>
  BEGIN_POPUP_MENU(MyTable)
     POPUP_MENU_ITEM("Cut", 7, XO("Cu&t"), OnCut)
     BEGIN_POPUP_MENU_SECTION("Style")
     POPUP_MENU_RADIO_ITEM("Mono", 8, XO("&Mono"), OnMono)
     POPUP_MENU_CHECK_ITEM("Mute", 9, XO("M&ute"), OnMute)
     POPUP_MENU_SUB_MENU("Rate", RateTable)
  END_POPUP_MENU()
  \<close>
  where \<^verbatim>\<open>RateTable::Instance()\<close> is a table with caption "Rate" at address 5.
\<close>

definition example_body :: "invocation list" where
  "example_body =
     [Menu_Item ''Cut'' 7 ''Cu&t'' ''OnCut'',
      Begin_Section ''Style'',
      Radio_Item ''Mono'' 8 ''&Mono'' ''OnMono'',
      Check_Item ''Mute'' 9 ''M&ute'' ''OnMute'',
      Sub_Menu ''Rate'' (5, PopupMenuTable ''Rate'' ''Rate'')]"

text \<open>
  A derived class with a data member of its own, which its \<^verbatim>\<open>Populate()\<close> increments
  before the macro invocations (the body is a function body and may hold other code):
  the member counts the runs of \<^verbatim>\<open>Populate()\<close>.
\<close>

record Counting_Table = PopupMenuTable +
  populated :: nat

definition counting_Populate :: "Counting_Table \<Rightarrow> exception option \<times> Counting_Table" where
  "counting_Populate t =
     BEGIN_POPUP_MENU ''Counting_Table''
       [Menu_Item ''Cut'' 7 ''Cu&t'' ''OnCut'']
       (t\<lparr>populated := populated t + 1\<rparr>)"

text \<open>
  A derived class whose \<^verbatim>\<open>Populate()\<close> throws before it has appended anything.
\<close>

definition throwing_Populate :: "PopupMenuTable \<Rightarrow> exception option \<times> PopupMenuTable" where
  "throwing_Populate t = (Some (Exception ''Populate failed''), t)"



section \<open>Menus built from tables\<close>

text \<open>
  Modelled from the spec: \<^verbatim>\<open>BuildMenu\<close> and \<^verbatim>\<open>ExtendMenu\<close> are only declared in
  PopupMenuTable.h; their bodies are in PopupMenuTable.cpp, which is not among the
  sources. The spec describes them as "build-menu (fold the entry list into calls
  against a native menu widget, registering callbacks against identifiers)" and
  "extend-menu (append a second table's entries to an already-built menu)", each "a
  straightforward, non-recoverable, single-pass traversal" that preserves list order; the
  header adds "More items get added to the end of it".

  A native menu is the sequence of what the toolkit calls have put into it; \<open>native\<close>
  gives the toolkit's rows for one entry and is left open, the toolkit being outside the
  spec. Both operations read the entries with \<open>Get\<close>, so they may populate the table, and
  an exception of \<^verbatim>\<open>Populate()\<close> leaves them before anything is added.
\<close>

type_synonym 'w wxMenu = "'w list"

definition ExtendMenu ::
  "(PopupMenuTableEntry \<Rightarrow> 'w list) \<Rightarrow> 'a Populate \<Rightarrow> 'w wxMenu \<Rightarrow> 'a PopupMenuTable_scheme
     \<Rightarrow> exception option \<times> 'w wxMenu \<times> 'a PopupMenuTable_scheme" where
  "ExtendMenu native Populate menu otherTable =
     (case Get Populate otherTable of
        (Inr entries, t') \<Rightarrow> (None, fold (\<lambda>entry m. m @ native entry) entries menu, t')
      | (Inl x, t') \<Rightarrow> (Some x, menu, t'))"

definition BuildMenu ::
  "(PopupMenuTableEntry \<Rightarrow> 'w list) \<Rightarrow> 'a Populate \<Rightarrow> 'a PopupMenuTable_scheme
     \<Rightarrow> exception option \<times> 'w wxMenu \<times> 'a PopupMenuTable_scheme" where
  "BuildMenu native Populate pTable = ExtendMenu native Populate [] pTable"


section \<open>Entries\<close>

text \<open>
  C4: the kind of an entry is one of the six tags, and the three predicates decide them:
  \<open>IsItem\<close> holds exactly for Item, RadioItem and CheckItem, \<open>IsSubMenu\<close> exactly for
  SubMenu, \<open>IsValid\<close> exactly for every tag but Invalid.
\<close>

theorem classifiers_decide_type:
  "type e \<in> {Item, RadioItem, CheckItem, Separator, SubMenu, Invalid}
   \<and> (IsItem e \<longleftrightarrow> type e \<in> {Item, RadioItem, CheckItem})
   \<and> (IsSubMenu e \<longleftrightarrow> type e = SubMenu)
   \<and> (IsValid e \<longleftrightarrow> type e \<noteq> Invalid)"
  by (cases "type e") (simp_all add: IsItem_def IsSubMenu_def IsValid_def)

text \<open>
  C5: the constructor stores each of its five arguments, unchanged, in the field of the
  same name.
\<close>

theorem constructor_stores_arguments:
  "type (PopupMenuTableEntry a_type a_id a_caption a_func a_subTable) = a_type
   \<and> id' (PopupMenuTableEntry a_type a_id a_caption a_func a_subTable) = a_id
   \<and> caption (PopupMenuTableEntry a_type a_id a_caption a_func a_subTable) = a_caption
   \<and> func (PopupMenuTableEntry a_type a_id a_caption a_func a_subTable) = a_func
   \<and> subTable (PopupMenuTableEntry a_type a_id a_caption a_func a_subTable) = a_subTable"
  by (simp add: PopupMenuTableEntry_def)


section \<open>Construction of a table\<close>

text \<open>
  C9: the constructor does not use its \<^verbatim>\<open>Identifier\<close> argument. Two tables constructed
  with different identifiers and the same caption are the same object: same caption,
  same (empty) contents, and the same result under any observation.
\<close>

theorem constructor_ignores_Identifier:
  "PopupMenuTable id1 c = PopupMenuTable id2 c
   \<and> Caption (PopupMenuTable id1 c) = c
   \<and> mContents (PopupMenuTable id1 c) = []
   \<and> observe (PopupMenuTable id1 c) = observe (PopupMenuTable id2 c)"
  by (simp add: PopupMenuTable_def Caption_def)


section \<open>What the macros append\<close>

text \<open>
  Every invocation extends \<open>mContents\<close> at its end and touches nothing else; a whole body
  extends it by the entries of its invocations, in textual order.
\<close>

lemma expand_appended:
  "expand My m t = t\<lparr>mContents := mContents t @ appended My m\<rparr>"
  by (cases m)
     (simp_all add: appended_def POPUP_MENU_ITEM_def POPUP_MENU_RADIO_ITEM_def
        POPUP_MENU_CHECK_ITEM_def POPUP_MENU_APPEND_ITEM_def POPUP_MENU_SUB_MENU_def
        BEGIN_POPUP_MENU_SECTION_def END_POPUP_MENU_SECTION_def POPUP_MENU_APPEND_def
        PopupMenuTable_def)

lemma length_appended: "appends_entry m \<Longrightarrow> length (appended My m) = 1"
  by (cases m)
     (simp_all add: appended_def POPUP_MENU_ITEM_def POPUP_MENU_RADIO_ITEM_def
        POPUP_MENU_CHECK_ITEM_def POPUP_MENU_APPEND_ITEM_def POPUP_MENU_SUB_MENU_def
        BEGIN_POPUP_MENU_SECTION_def POPUP_MENU_APPEND_def PopupMenuTable_def)

lemma appended_valid: "e \<in> set (appended My m) \<Longrightarrow> IsValid e"
  by (cases m)
     (simp_all add: appended_def POPUP_MENU_ITEM_def POPUP_MENU_RADIO_ITEM_def
        POPUP_MENU_CHECK_ITEM_def POPUP_MENU_APPEND_ITEM_def POPUP_MENU_SUB_MENU_def
        BEGIN_POPUP_MENU_SECTION_def END_POPUP_MENU_SECTION_def POPUP_MENU_APPEND_def
        PopupMenuTable_def PopupMenuTableEntry_def IsValid_def)

lemma fold_expand:
  "fold (expand My) body t = t\<lparr>mContents := mContents t @ concat (map (appended My) body)\<rparr>"
proof (induction body arbitrary: t)
  case Nil
  show ?case by simp
next
  case (Cons m body)
  have "fold (expand My) (m # body) t = fold (expand My) body (expand My m t)"
    by simp
  also have "\<dots> = (expand My m t)\<lparr>mContents :=
      mContents (expand My m t) @ concat (map (appended My) body)\<rparr>"
    by (rule Cons.IH)
  also have "\<dots> = t\<lparr>mContents := mContents t @ concat (map (appended My) (m # body))\<rparr>"
    by (simp add: expand_appended)
  finally show ?case .
qed

lemma mContents_fold_expand:
  "mContents (fold (expand My) body t) = mContents t @ concat (map (appended My) body)"
  by (simp add: fold_expand)

lemma BEGIN_POPUP_MENU_eq:
  "BEGIN_POPUP_MENU My body t =
     (None, t\<lparr>mContents := mContents t @ concat (map (appended My) body)
                 @ [PopupMenuTableEntry Invalid (- 1) [] None None]\<rparr>)"
  by (simp add: BEGIN_POPUP_MENU_def END_POPUP_MENU_def POPUP_MENU_APPEND_def fold_expand)

lemma length_concat_singletons:
  "list_all (\<lambda>m. length (f m) = 1) body \<Longrightarrow> length (concat (map f body)) = length body"
  by (induction body) simp_all

lemma nth_concat_singletons:
  "list_all (\<lambda>m. length (f m) = 1) body \<Longrightarrow> k < length body
     \<Longrightarrow> f (body ! k) = [concat (map f body) ! k]"
proof (induction body arbitrary: k)
  case Nil
  then show ?case by simp
next
  case (Cons m body)
  from Cons.prems(1) obtain x where x: "f m = [x]"
    by (cases "f m") simp_all
  show ?case
  proof (cases k)
    case 0
    then show ?thesis by (simp add: x)
  next
    case (Suc j)
    with Cons show ?thesis by (simp add: x)
  qed
qed

lemma list_all_appended: "list_all IsValid (concat (map (appended My) body))"
  by (auto simp: list_all_iff dest: appended_valid)


section \<open>Get\<close>

lemma Get_nonempty: "mContents t \<noteq> [] \<Longrightarrow> Get P t = (Inr (mContents t), t)"
  by (simp add: Get_def)

lemma Get_returns_contents:
  "Get P t = (Inr es, t') \<Longrightarrow> mContents t' = es"
  by (auto simp: Get_def split: if_splits prod.splits option.splits)

lemma snd_Get: "snd (Get P t) = (if mContents t = [] then snd (P t) else t)"
  by (simp add: Get_def split: prod.splits option.splits)

lemma Get_macro:
  "Get (BEGIN_POPUP_MENU My body) t =
     (if mContents t = [] then
        (Inr (concat (map (appended My) body) @ [PopupMenuTableEntry Invalid (- 1) [] None None]),
         t\<lparr>mContents := concat (map (appended My) body)
              @ [PopupMenuTableEntry Invalid (- 1) [] None None]\<rparr>)
      else (Inr (mContents t), t))"
  by (simp add: Get_def BEGIN_POPUP_MENU_eq)

lemma step_keeps_nonempty:
  "mContents t \<noteq> [] \<Longrightarrow> c \<noteq> Call_Clear \<Longrightarrow> step P c t = t"
  by (cases c) (simp_all add: Get_def)

lemma run_keeps_nonempty:
  "mContents t \<noteq> [] \<Longrightarrow> Call_Clear \<notin> set cs \<Longrightarrow> run P cs t = t"
proof (induction cs)
  case Nil
  show ?case by (simp add: run_def)
next
  case (Cons c cs)
  from Cons.prems have "step P c t = t"
    by (intro step_keeps_nonempty) auto
  with Cons show ?case by (simp add: run_def)
qed

text \<open>
  C1: the entries are built lazily. \<open>Get\<close> runs \<^verbatim>\<open>Populate()\<close> exactly when
  \<open>mContents\<close> is empty: on an empty table its result is the result of that one run, on
  a non-empty table its result is the stored sequence and the unchanged object, whatever
  \<^verbatim>\<open>Populate()\<close> would do. Once a call of \<open>Get\<close> has returned a non-empty sequence,
  any later calls of \<open>Get\<close> and \<open>Caption\<close> (no \<open>Clear\<close> among them) leave the object as
  it is, and \<open>Get\<close> returns the same sequence again.
\<close>

theorem Get_populates_lazily:
  "(mContents t = [] \<longrightarrow>
      Get P t = (case P t of (None, t') \<Rightarrow> (Inr (mContents t'), t')
                           | (Some x, t') \<Rightarrow> (Inl x, t')))
   \<and> (mContents t \<noteq> [] \<longrightarrow> Get Q t = (Inr (mContents t), t))
   \<and> (Get P t = (Inr es, t') \<and> es \<noteq> [] \<and> Call_Clear \<notin> set cs \<longrightarrow>
        run Q cs t' = t' \<and> Get Q (run Q cs t') = (Inr es, t'))"
proof (intro conjI impI)
  assume "mContents t = []"
  then show "Get P t = (case P t of (None, t') \<Rightarrow> (Inr (mContents t'), t')
                                  | (Some x, t') \<Rightarrow> (Inl x, t'))"
    by (simp add: Get_def)
next
  assume "mContents t \<noteq> []"
  then show "Get Q t = (Inr (mContents t), t)"
    by (rule Get_nonempty)
next
  assume a: "Get P t = (Inr es, t') \<and> es \<noteq> [] \<and> Call_Clear \<notin> set cs"
  then have built: "mContents t' = es"
    using Get_returns_contents [of P t es t'] by blast
  with a show "run Q cs t' = t'"
    by (simp add: run_keeps_nonempty)
  with a built show "Get Q (run Q cs t') = (Inr es, t')"
    by (simp add: Get_nonempty)
qed

text \<open>
  The counting table: \<open>Get\<close> on the fresh table populates it (one run); \<open>Get\<close> on the
  populated table returns the same entries and leaves the count at one, also after
  further calls.
\<close>

theorem Get_populates_lazily_witness:
  "mContents \<lparr>mContents = [], mCaption = ''Edit'', populated = 0\<rparr> = []
   \<and> Get counting_Populate \<lparr>mContents = [], mCaption = ''Edit'', populated = 0\<rparr>
       = (Inr [PopupMenuTableEntry Item 7 ''Cu&t'' (Some (''Counting_Table'', ''OnCut'')) None,
               PopupMenuTableEntry Invalid (- 1) [] None None],
          \<lparr>mContents = [PopupMenuTableEntry Item 7 ''Cu&t'' (Some (''Counting_Table'', ''OnCut'')) None,
               PopupMenuTableEntry Invalid (- 1) [] None None],
            mCaption = ''Edit'', populated = 1\<rparr>)
   \<and> mContents \<lparr>mContents = [PopupMenuTableEntry Item 7 ''Cu&t'' (Some (''Counting_Table'', ''OnCut'')) None,
               PopupMenuTableEntry Invalid (- 1) [] None None],
            mCaption = ''Edit'', populated = 1\<rparr> \<noteq> []
   \<and> Get counting_Populate
          \<lparr>mContents = [PopupMenuTableEntry Item 7 ''Cu&t'' (Some (''Counting_Table'', ''OnCut'')) None,
               PopupMenuTableEntry Invalid (- 1) [] None None],
            mCaption = ''Edit'', populated = 1\<rparr>
       = (Inr [PopupMenuTableEntry Item 7 ''Cu&t'' (Some (''Counting_Table'', ''OnCut'')) None,
               PopupMenuTableEntry Invalid (- 1) [] None None],
          \<lparr>mContents = [PopupMenuTableEntry Item 7 ''Cu&t'' (Some (''Counting_Table'', ''OnCut'')) None,
               PopupMenuTableEntry Invalid (- 1) [] None None],
            mCaption = ''Edit'', populated = 1\<rparr>)
   \<and> Call_Clear \<notin> set [Call_Get, Call_Caption, Call_Get]
   \<and> Get counting_Populate
        (run counting_Populate [Call_Get, Call_Caption, Call_Get]
          \<lparr>mContents = [PopupMenuTableEntry Item 7 ''Cu&t'' (Some (''Counting_Table'', ''OnCut'')) None,
               PopupMenuTableEntry Invalid (- 1) [] None None],
            mCaption = ''Edit'', populated = 1\<rparr>)
       = (Inr [PopupMenuTableEntry Item 7 ''Cu&t'' (Some (''Counting_Table'', ''OnCut'')) None,
               PopupMenuTableEntry Invalid (- 1) [] None None],
          \<lparr>mContents = [PopupMenuTableEntry Item 7 ''Cu&t'' (Some (''Counting_Table'', ''OnCut'')) None,
               PopupMenuTableEntry Invalid (- 1) [] None None],
            mCaption = ''Edit'', populated = 1\<rparr>)"
proof -
  let ?t0 = "\<lparr>mContents = [], mCaption = ''Edit'', populated = 0::nat\<rparr>"
  let ?es = "[PopupMenuTableEntry Item 7 ''Cu&t'' (Some (''Counting_Table'', ''OnCut'')) None,
              PopupMenuTableEntry Invalid (- 1) [] None None]"
  let ?t1 = "\<lparr>mContents = ?es, mCaption = ''Edit'', populated = 1::nat\<rparr>"
  let ?cs = "[Call_Get, Call_Caption, Call_Get]"
  have empty: "mContents ?t0 = []"
    by simp
  have pop: "counting_Populate ?t0 = (None, ?t1)"
    by (simp add: counting_Populate_def BEGIN_POPUP_MENU_def END_POPUP_MENU_def
        POPUP_MENU_ITEM_def POPUP_MENU_APPEND_ITEM_def POPUP_MENU_APPEND_def)
  note lazy = Get_populates_lazily [of ?t0 counting_Populate counting_Populate ?es ?t1 ?cs]
  from lazy empty pop have first: "Get counting_Populate ?t0 = (Inr ?es, ?t1)"
    by simp
  have built: "mContents ?t1 \<noteq> []"
    by simp
  with Get_populates_lazily [of ?t1 counting_Populate counting_Populate ?es ?t1 ?cs]
  have second: "Get counting_Populate ?t1 = (Inr ?es, ?t1)"
    by simp
  have no_clear: "Call_Clear \<notin> set ?cs"
    by simp
  with lazy first have later: "Get counting_Populate (run counting_Populate ?cs ?t1) = (Inr ?es, ?t1)"
    by blast
  from empty first built second no_clear later show ?thesis
    by blast
qed

text \<open>
  C6: entries are never changed one by one. \<open>Get\<close> returns the object unchanged unless
  the sequence was empty, when the object is the one \<^verbatim>\<open>Populate()\<close> built; in both
  cases every entry present before the call is still in its place. \<open>Caption\<close> changes
  nothing. \<open>Clear\<close> removes all entries. So after any one call the sequence is what it
  was, or it is empty (by \<open>Clear\<close>), or it was empty and has been built as a whole; and
  \<open>Clear\<close> followed by \<open>Get\<close> runs \<^verbatim>\<open>Populate()\<close> on the cleared table again.
\<close>

theorem entries_changed_only_as_a_whole:
  "snd (Get P t) = (if mContents t = [] then snd (P t) else t)
   \<and> prefix (mContents t) (mContents (snd (Get P t)))
   \<and> step P Call_Caption t = t
   \<and> mContents (Clear t) = []
   \<and> (mContents (step P c t) = mContents t
        \<or> (c = Call_Clear \<and> mContents (step P c t) = [])
        \<or> (c = Call_Get \<and> mContents t = [] \<and> step P c t = snd (P t)))
   \<and> (prefix (mContents t) (mContents (step P c t)) \<or> mContents (step P c t) = [])
   \<and> step P Call_Get (step P Call_Clear t) = snd (P (Clear t))"
proof -
  have a: "snd (Get P t) = (if mContents t = [] then snd (P t) else t)"
    by (rule snd_Get)
  have b: "prefix (mContents t) (mContents (snd (Get P t)))"
    by (simp add: snd_Get)
  have c: "step P Call_Caption t = t"
    by simp
  have d: "mContents (Clear t) = []"
    by (simp add: Clear_def)
  have e: "mContents (step P c t) = mContents t
        \<or> (c = Call_Clear \<and> mContents (step P c t) = [])
        \<or> (c = Call_Get \<and> mContents t = [] \<and> step P c t = snd (P t))"
    by (cases c) (simp_all add: snd_Get Clear_def)
  have f: "prefix (mContents t) (mContents (step P c t)) \<or> mContents (step P c t) = []"
    by (cases c) (simp_all add: snd_Get Clear_def)
  have g: "step P Call_Get (step P Call_Clear t) = snd (P (Clear t))"
    by (simp add: snd_Get Clear_def)
  from a b c d e f g show ?thesis
    by blast
qed

text \<open>
  C7, as the code has it: the three operations have no failure of their own, but \<open>Get\<close>
  passes on a failure of \<^verbatim>\<open>Populate()\<close>. \<open>Get\<close> ends in an exception exactly when the
  sequence was empty and the \<^verbatim>\<open>Populate()\<close> it called ended in this exception, which
  \<open>Get\<close> neither handles nor replaces; it returns the entries exactly when the sequence
  was non-empty or \<^verbatim>\<open>Populate()\<close> returns normally, and so always with a
  \<^verbatim>\<open>Populate()\<close> written with the macros. \<open>Caption\<close> and \<open>Clear\<close> have one branch each,
  which returns the caption and the emptied table in every state.
\<close>

theorem no_failure_of_their_own:
  "(fst (Get P t) = Inl x \<longleftrightarrow> mContents t = [] \<and> fst (P t) = Some x)
   \<and> ((\<exists>es. fst (Get P t) = Inr es) \<longleftrightarrow> fst (P t) = None \<or> mContents t \<noteq> [])
   \<and> (\<exists>es. fst (Get (BEGIN_POPUP_MENU My body) t) = Inr es)
   \<and> Caption t = mCaption t
   \<and> Clear t = t\<lparr>mContents := []\<rparr>"
proof -
  have fails: "fst (Get P t) = Inl x \<longleftrightarrow> mContents t = [] \<and> fst (P t) = Some x"
    by (auto simp: Get_def split: prod.splits option.splits)
  have returns: "(\<exists>es. fst (Get P t) = Inr es) \<longleftrightarrow> fst (P t) = None \<or> mContents t \<noteq> []"
    by (auto simp: Get_def split: prod.splits option.splits)
  have macros: "\<exists>es. fst (Get (BEGIN_POPUP_MENU My body) t) = Inr es"
    by (simp add: Get_macro)
  from fails returns macros show ?thesis
    by (simp add: Caption_def Clear_def)
qed

text \<open>
  A populated table returns its entries even though its \<^verbatim>\<open>Populate()\<close> would throw; the
  fresh table of the same class does not.
\<close>

theorem no_failure_of_their_own_witness:
  "mContents \<lparr>mContents = [PopupMenuTableEntry Invalid (- 1) [] None None], mCaption = ''Edit''\<rparr> \<noteq> []
   \<and> (\<exists>es. fst (Get throwing_Populate
          \<lparr>mContents = [PopupMenuTableEntry Invalid (- 1) [] None None], mCaption = ''Edit''\<rparr>) = Inr es)
   \<and> mContents (PopupMenuTable ''Edit'' []) = []
   \<and> fst (throwing_Populate (PopupMenuTable ''Edit'' [])) = Some (Exception ''Populate failed'')
   \<and> fst (Get throwing_Populate (PopupMenuTable ''Edit'' [])) = Inl (Exception ''Populate failed'')"
proof -
  let ?t = "\<lparr>mContents = [PopupMenuTableEntry Invalid (- 1) [] None None], mCaption = ''Edit''\<rparr>"
  have built: "mContents ?t \<noteq> []"
    by simp
  with no_failure_of_their_own [of throwing_Populate ?t]
  have ok: "\<exists>es. fst (Get throwing_Populate ?t) = Inr es"
    by blast
  have empty: "mContents (PopupMenuTable ''Edit'' []) = []"
    by (simp add: PopupMenuTable_def)
  have thrown: "fst (throwing_Populate (PopupMenuTable ''Edit'' [])) = Some (Exception ''Populate failed'')"
    by (simp add: throwing_Populate_def)
  with empty no_failure_of_their_own [of throwing_Populate "PopupMenuTable ''Edit'' []" "Exception ''Populate failed''"]
  have bad: "fst (Get throwing_Populate (PopupMenuTable ''Edit'' [])) = Inl (Exception ''Populate failed'')"
    by blast
  from built ok empty thrown bad show ?thesis
    by blast
qed

text \<open>
  C7, as stated, fails: \<open>Get\<close> does not succeed on every table. On a fresh table whose
  \<^verbatim>\<open>Populate()\<close> throws, \<open>Get\<close> ends in that exception.
\<close>

theorem Get_signals_error_of_Populate:
  "fst (Get throwing_Populate (PopupMenuTable ''Edit'' [])) = Inl (Exception ''Populate failed'')"
  by (simp add: Get_def throwing_Populate_def PopupMenuTable_def)


section \<open>Tables populated with the macros\<close>

text \<open>
  C2: each invocation of one of the five entry-appending macros appends exactly one
  entry at the end of \<open>mContents\<close>. For a body of such invocations there is a sequence
  \<open>es\<close>, as long as the body, that the body appends to the contents, whose \<open>k\<close>-th
  entry is the one the \<open>k\<close>-th invocation appends to any table; and \<open>Get\<close> on a fresh
  table returns \<open>es\<close> followed by the closing entry of \<^verbatim>\<open>END_POPUP_MENU\<close>.
\<close>

theorem invocations_append_in_order:
  assumes "list_all appends_entry body"
  shows "\<exists>es. length es = length body
     \<and> mContents (fold (expand My) body t) = mContents t @ es
     \<and> (\<forall>k<length body. \<forall>u::'a PopupMenuTable_scheme.
           mContents (expand My (body ! k) u) = mContents u @ [es ! k])
     \<and> fst (Get (BEGIN_POPUP_MENU My body) (PopupMenuTable ident c))
         = Inr (es @ [PopupMenuTableEntry Invalid (- 1) [] None None])"
proof -
  let ?es = "concat (map (appended My) body)"
  from assms have one: "list_all (\<lambda>m. length (appended My m) = 1) body"
    by (simp add: list_all_iff length_appended)
  have len: "length ?es = length body"
    using one by (rule length_concat_singletons)
  have all: "mContents (fold (expand My) body t) = mContents t @ ?es"
    by (rule mContents_fold_expand)
  have each: "mContents (expand My (body ! k) u) = mContents u @ [?es ! k]"
    if "k < length body" for k and u :: "'a PopupMenuTable_scheme"
    using nth_concat_singletons [OF one that] by (simp add: expand_appended)
  have got: "fst (Get (BEGIN_POPUP_MENU My body) (PopupMenuTable ident c))
      = Inr (?es @ [PopupMenuTableEntry Invalid (- 1) [] None None])"
    by (simp add: Get_macro PopupMenuTable_def)
  from len all each got show ?thesis by blast
qed

text \<open>The example body: five invocations, five entries in the same order, then the closing entry.\<close>

theorem invocations_append_in_order_witness:
  "list_all appends_entry example_body
   \<and> (\<exists>es. length es = length example_body
     \<and> mContents (fold (expand ''MyTable'') example_body (PopupMenuTable ''Edit'' [])) = mContents (PopupMenuTable ''Edit'' []) @ es
     \<and> fst (Get (BEGIN_POPUP_MENU ''MyTable'' example_body) (PopupMenuTable ''Edit'' []))
         = Inr (es @ [PopupMenuTableEntry Invalid (- 1) [] None None]))
   \<and> fst (Get (BEGIN_POPUP_MENU ''MyTable'' example_body) (PopupMenuTable ''Edit'' []))
       = Inr [\<lparr>type = Item, id' = 7, caption = ''Cu&t'', func = Some (''MyTable'', ''OnCut''), subTable = None\<rparr>,
              \<lparr>type = Separator, id' = - 1, caption = [], func = None, subTable = None\<rparr>,
              \<lparr>type = RadioItem, id' = 8, caption = ''&Mono'', func = Some (''MyTable'', ''OnMono''), subTable = None\<rparr>,
              \<lparr>type = CheckItem, id' = 9, caption = ''M&ute'', func = Some (''MyTable'', ''OnMute''), subTable = None\<rparr>,
              \<lparr>type = SubMenu, id' = - 1, caption = ''Rate'', func = None, subTable = Some 5\<rparr>,
              \<lparr>type = Invalid, id' = - 1, caption = [], func = None, subTable = None\<rparr>]"
proof -
  have h: "list_all appends_entry example_body"
    by (simp add: example_body_def)
  from invocations_append_in_order [OF h, of "''MyTable''" "PopupMenuTable ''Edit'' []" "''Edit''" "[]"]
  have "\<exists>es. length es = length example_body
     \<and> mContents (fold (expand ''MyTable'') example_body (PopupMenuTable ''Edit'' [])) = mContents (PopupMenuTable ''Edit'' []) @ es
     \<and> fst (Get (BEGIN_POPUP_MENU ''MyTable'' example_body) (PopupMenuTable ''Edit'' []))
         = Inr (es @ [PopupMenuTableEntry Invalid (- 1) [] None None])"
    by blast
  moreover have "fst (Get (BEGIN_POPUP_MENU ''MyTable'' example_body) (PopupMenuTable ''Edit'' []))
       = Inr [\<lparr>type = Item, id' = 7, caption = ''Cu&t'', func = Some (''MyTable'', ''OnCut''), subTable = None\<rparr>,
              \<lparr>type = Separator, id' = - 1, caption = [], func = None, subTable = None\<rparr>,
              \<lparr>type = RadioItem, id' = 8, caption = ''&Mono'', func = Some (''MyTable'', ''OnMono''), subTable = None\<rparr>,
              \<lparr>type = CheckItem, id' = 9, caption = ''M&ute'', func = Some (''MyTable'', ''OnMute''), subTable = None\<rparr>,
              \<lparr>type = SubMenu, id' = - 1, caption = ''Rate'', func = None, subTable = Some 5\<rparr>,
              \<lparr>type = Invalid, id' = - 1, caption = [], func = None, subTable = None\<rparr>]"
    by (simp add: example_body_def Get_def BEGIN_POPUP_MENU_def END_POPUP_MENU_def
        POPUP_MENU_ITEM_def POPUP_MENU_RADIO_ITEM_def POPUP_MENU_CHECK_ITEM_def
        POPUP_MENU_APPEND_ITEM_def POPUP_MENU_SUB_MENU_def BEGIN_POPUP_MENU_SECTION_def
        POPUP_MENU_APPEND_def PopupMenuTable_def PopupMenuTableEntry_def Caption_def)
  ultimately show ?thesis using h by blast
qed

lemma macro_contents_invariant_step:
  assumes "P = BEGIN_POPUP_MENU My body"
    and "full = concat (map (appended My) body) @ [PopupMenuTableEntry Invalid (- 1) [] None None]"
    and "mContents t = [] \<or> mContents t = full"
  shows "mContents (step P c t) = [] \<or> mContents (step P c t) = full"
  using assms by (cases c) (auto simp: Get_macro Clear_def)

lemma macro_contents_invariant:
  assumes "P = BEGIN_POPUP_MENU My body"
    and "full = concat (map (appended My) body) @ [PopupMenuTableEntry Invalid (- 1) [] None None]"
  shows "mContents t = [] \<or> mContents t = full \<Longrightarrow>
    mContents (run P cs t) = [] \<or> mContents (run P cs t) = full"
proof (induction cs arbitrary: t)
  case Nil
  then show ?case by (simp add: run_def)
next
  case (Cons c cs)
  have "mContents (step P c t) = [] \<or> mContents (step P c t) = full"
    using assms Cons.prems by (rule macro_contents_invariant_step)
  then have "mContents (run P cs (step P c t)) = [] \<or> mContents (run P cs (step P c t)) = full"
    by (rule Cons.IH)
  then show ?case by (simp add: run_def)
qed

lemma Get_macro_reachable:
  "fst (Get (BEGIN_POPUP_MENU My body) (run (BEGIN_POPUP_MENU My body) cs (PopupMenuTable ident c)))
     = Inr (concat (map (appended My) body) @ [PopupMenuTableEntry Invalid (- 1) [] None None])"
proof -
  let ?full = "concat (map (appended My) body) @ [PopupMenuTableEntry Invalid (- 1) [] None None]"
  have "mContents (PopupMenuTable ident c) = [] \<or> mContents (PopupMenuTable ident c) = ?full"
    by (simp add: PopupMenuTable_def)
  then have "mContents (run (BEGIN_POPUP_MENU My body) cs (PopupMenuTable ident c)) = []
     \<or> mContents (run (BEGIN_POPUP_MENU My body) cs (PopupMenuTable ident c)) = ?full"
    by (rule macro_contents_invariant [OF refl refl])
  then show ?thesis
    by (auto simp: Get_macro)
qed

text \<open>
  C8: a \<^verbatim>\<open>Populate()\<close> written with the macros leaves \<open>mContents\<close> non-empty, with the
  entry (Invalid, -1, empty caption, no callback, no subtable) last and the entries of
  the body before it. For a table with such a \<^verbatim>\<open>Populate()\<close>, after construction and
  any calls of \<open>Get\<close>, \<open>Caption\<close> and \<open>Clear\<close>, \<open>Get\<close> returns a non-empty sequence whose
  last entry is that one and fails \<open>IsValid\<close>, and whose entries before the last are
  the entries of the body in their order, all of them valid.
\<close>

theorem macro_table_ends_with_sentinel:
  "mContents (snd (BEGIN_POPUP_MENU My body t)) \<noteq> []
   \<and> last (mContents (snd (BEGIN_POPUP_MENU My body t)))
       = \<lparr>type = Invalid, id' = - 1, caption = [], func = None, subTable = None\<rparr>
   \<and> butlast (mContents (snd (BEGIN_POPUP_MENU My body t))) = mContents (fold (expand My) body t)
   \<and> (\<exists>es. fst (Get (BEGIN_POPUP_MENU My body)
                 (run (BEGIN_POPUP_MENU My body) cs (PopupMenuTable ident c))) = Inr es
          \<and> es \<noteq> []
          \<and> last es = \<lparr>type = Invalid, id' = - 1, caption = [], func = None, subTable = None\<rparr>
          \<and> \<not> IsValid (last es)
          \<and> butlast es = mContents (fold (expand My) body (PopupMenuTable ident c))
          \<and> list_all IsValid (butlast es))"
proof -
  have a: "mContents (snd (BEGIN_POPUP_MENU My body t)) \<noteq> []"
    by (simp add: BEGIN_POPUP_MENU_eq)
  have b: "last (mContents (snd (BEGIN_POPUP_MENU My body t)))
       = \<lparr>type = Invalid, id' = - 1, caption = [], func = None, subTable = None\<rparr>"
    by (simp add: BEGIN_POPUP_MENU_eq PopupMenuTableEntry_def)
  have c: "butlast (mContents (snd (BEGIN_POPUP_MENU My body t))) = mContents (fold (expand My) body t)"
    by (simp add: BEGIN_POPUP_MENU_eq mContents_fold_expand butlast_append)
  let ?es = "concat (map (appended My) body) @ [PopupMenuTableEntry Invalid (- 1) [] None None]"
  have d: "fst (Get (BEGIN_POPUP_MENU My body)
                 (run (BEGIN_POPUP_MENU My body) cs (PopupMenuTable ident c))) = Inr ?es"
    by (rule Get_macro_reachable)
  have e: "?es \<noteq> []"
    by simp
  have f: "last ?es = \<lparr>type = Invalid, id' = - 1, caption = [], func = None, subTable = None\<rparr>"
    by (simp add: PopupMenuTableEntry_def)
  have g: "\<not> IsValid (last ?es)"
    by (simp add: IsValid_def PopupMenuTableEntry_def)
  have h: "butlast ?es = mContents (fold (expand My) body (PopupMenuTable ident c))"
    by (simp add: mContents_fold_expand butlast_append PopupMenuTable_def)
  have i: "list_all IsValid (butlast ?es)"
    by (simp add: butlast_append list_all_appended)
  from a b c d e f g h i show ?thesis
    by blast
qed

lemma mCaption_Get:
  "(\<And>u. mCaption (snd (P u)) = mCaption u) \<Longrightarrow> mCaption (snd (Get P t)) = mCaption t"
  by (auto simp: Get_def split: prod.splits option.splits) (metis snd_conv)+

lemma mCaption_step:
  "(\<And>u. mCaption (snd (P u)) = mCaption u) \<Longrightarrow> mCaption (step P c t) = mCaption t"
  by (cases c) (simp_all add: mCaption_Get Clear_def)

lemma mCaption_run:
  "(\<And>u. mCaption (snd (P u)) = mCaption u) \<Longrightarrow> mCaption (run P cs t) = mCaption t"
proof (induction cs arbitrary: t)
  case Nil
  show ?case by (simp add: run_def)
next
  case (Cons c cs)
  have "mCaption (run P cs (step P c t)) = mCaption (step P c t)"
    using Cons.prems by (rule Cons.IH)
  then show ?case
    using Cons.prems by (simp add: run_def mCaption_step)
qed

lemma mCaption_BEGIN_POPUP_MENU: "mCaption (snd (BEGIN_POPUP_MENU My body u)) = mCaption u"
  by (simp add: BEGIN_POPUP_MENU_eq)

lemma mCaption_run_macro: "mCaption (run (BEGIN_POPUP_MENU My body) cs t) = mCaption t"
  by (rule mCaption_run) (rule mCaption_BEGIN_POPUP_MENU)

lemma mCaption_Get_macro: "mCaption (snd (Get (BEGIN_POPUP_MENU My body) t)) = mCaption t"
  by (rule mCaption_Get) (rule mCaption_BEGIN_POPUP_MENU)

text \<open>
  C10: the caption is the one given at construction. With a \<^verbatim>\<open>Populate()\<close> written
  with the macros, no sequence of calls of \<open>Get\<close>, \<open>Caption\<close> and \<open>Clear\<close> changes what
  \<open>Caption\<close> returns; neither does a single \<open>Get\<close> or \<open>Clear\<close>.
\<close>

theorem Caption_is_stable:
  "Caption (run (BEGIN_POPUP_MENU My body) cs t) = Caption t
   \<and> Caption (run (BEGIN_POPUP_MENU My body) cs (PopupMenuTable ident c)) = c
   \<and> Caption (snd (Get (BEGIN_POPUP_MENU My body) t)) = Caption t
   \<and> Caption (Clear t) = Caption t"
  by (simp add: Caption_def mCaption_run_macro mCaption_Get_macro)
     (simp add: Clear_def PopupMenuTable_def)


section \<open>Extending a menu\<close>

lemma fold_native:
  "fold (\<lambda>entry m. m @ native entry) entries menu = menu @ concat (map native entries)"
  by (induction entries arbitrary: menu) simp_all

lemma ExtendMenu_menu:
  "fst (snd (ExtendMenu native P menu otherTable)) =
     (case fst (Get P otherTable) of
        Inr entries \<Rightarrow> menu @ concat (map native entries)
      | Inl x \<Rightarrow> menu)"
  by (simp add: ExtendMenu_def fold_native split: prod.splits sum.splits)

text \<open>
  C3: \<open>ExtendMenu\<close> adds the rows of the other table's entries, in their order, after
  everything that is in the menu, and leaves what was there as it was; in particular
  for a menu that \<open>BuildMenu\<close> has built.
\<close>

theorem ExtendMenu_appends_at_the_end:
  "fst (snd (ExtendMenu native P menu otherTable)) =
     (case fst (Get P otherTable) of
        Inr entries \<Rightarrow> menu @ concat (map native entries)
      | Inl x \<Rightarrow> menu)
   \<and> prefix menu (fst (snd (ExtendMenu native P menu otherTable)))
   \<and> fst (snd (ExtendMenu native P (fst (snd (BuildMenu native P1 pTable))) otherTable)) =
     (case fst (Get P otherTable) of
        Inr entries \<Rightarrow> fst (snd (BuildMenu native P1 pTable)) @ concat (map native entries)
      | Inl x \<Rightarrow> fst (snd (BuildMenu native P1 pTable)))
   \<and> fst (snd (BuildMenu native P1 pTable)) =
     (case fst (Get P1 pTable) of
        Inr entries \<Rightarrow> concat (map native entries)
      | Inl x \<Rightarrow> [])"
  by (simp add: ExtendMenu_menu BuildMenu_def split: sum.splits)

end
